theory Spec2Isabelle
  imports Main
begin

section \<open>Exceptions (app/core/exceptions.py)\<close>

text \<open>
  The exception hierarchy of the application. A raised exception is a value: the class is
  the tag, the attributes set by \<open>ChatBotException.__init__\<close> are the fields.
  \<open>IntegrityError\<close> is the database's refusal of a duplicate primary key at flush time.
\<close>

datatype exception_class =
    SessionNotFound
  | UserNotFound
  | UserAlreadyExists
  | IntegrityError

record exception =
  cls :: exception_class
  message :: string
  code :: string
  status_code :: int
  details :: "(string \<times> string) list"

definition quoted :: "string \<Rightarrow> string" where
  "quoted s = [CHR 0x27] @ s @ [CHR 0x27]"

definition SessionNotFoundException :: "string \<Rightarrow> exception" where
  "SessionNotFoundException session_id =
     \<lparr>cls = SessionNotFound,
      message = ''Session with ID '' @ quoted session_id @ '' not found'',
      code = ''SESSION_NOT_FOUND'',
      status_code = 404,
      details = [(''session_id'', session_id)]\<rparr>"

definition UserNotFoundException :: "string \<Rightarrow> exception" where
  "UserNotFoundException user_id =
     \<lparr>cls = UserNotFound,
      message = ''User with ID '' @ quoted user_id @ '' not found'',
      code = ''USER_NOT_FOUND'',
      status_code = 404,
      details = [(''user_id'', user_id)]\<rparr>"

definition UserAlreadyExistsException :: "string \<Rightarrow> exception" where
  "UserAlreadyExistsException user_id =
     \<lparr>cls = UserAlreadyExists,
      message = ''User with ID '' @ quoted user_id @ '' already exists'',
      code = ''USER_ALREADY_EXISTS'',
      status_code = 409,
      details = [(''user_id'', user_id)]\<rparr>"

definition IntegrityErrorException :: "string \<Rightarrow> exception" where
  "IntegrityErrorException key =
     \<lparr>cls = IntegrityError,
      message = ''UNIQUE constraint failed: '' @ key,
      code = ''INTERNAL_ERROR'',
      status_code = 500,
      details = []\<rparr>"

section \<open>The relational store\<close>

text \<open>
  The tables the services read and write through the SQLAlchemy session. A table is the
  list of its rows in insertion order; the primary key is checked when a new row is
  flushed. A UUID is kept in its canonical text form, a timestamp is a number of ticks.
  Field names follow the ORM attributes; the session's \<open>id\<close> and \<open>user_id\<close> are
  \<open>session_id\<close> and \<open>owner_id\<close> here, since field names are global constants.
\<close>

type_synonym uuid = string
type_synonym timestamp = nat

record user =
  user_id :: string
  name :: "string option"
  city :: "string option"
  created_at :: timestamp
  session_count :: int

datatype session_status = ACTIVE | DELETED

record chat_session =
  session_id :: uuid
  owner_id :: string
  user_name :: "string option"
  location :: "string option"
  status :: session_status
  message_count :: int
  session_created_at :: timestamp

datatype role = UserRole | AssistantRole

record turn =
  turn_session_id :: uuid
  turn_role :: role
  content :: string
  turn_created_at :: timestamp

record db =
  users :: "user list"
  sessions :: "chat_session list"
  turns :: "turn list"

definition db_get_user :: "db \<Rightarrow> string \<Rightarrow> user option" where
  "db_get_user d uid = find (\<lambda>u. user_id u = uid) (users d)"

definition db_get_session :: "db \<Rightarrow> uuid \<Rightarrow> chat_session option" where
  "db_get_session d sid = find (\<lambda>s. session_id s = sid) (sessions d)"

text \<open>
  \<open>db.add(row)\<close> followed by \<open>db.flush()\<close>: the INSERT fails on a primary key in use
  and then leaves the table as it was. Every operation returns its outcome (\<open>Inl\<close> the
  exception raised, \<open>Inr\<close> the value returned) together with the store it leaves behind.
  A failed flush also makes SQLAlchemy roll the surrounding transaction back, which undoes
  rows flushed earlier in it; the store returned with an \<open>IntegrityError\<close> is the one
  before that rollback, and the statements below are about the paths on which no flush
  fails.
\<close>

definition add_user :: "db \<Rightarrow> user \<Rightarrow> (exception + unit) \<times> db" where
  "add_user d u =
     (if list_ex (\<lambda>r. user_id r = user_id u) (users d)
      then (Inl (IntegrityErrorException ''users.user_id''), d)
      else (Inr (), d\<lparr>users := users d @ [u]\<rparr>))"

definition add_session :: "db \<Rightarrow> chat_session \<Rightarrow> (exception + unit) \<times> db" where
  "add_session d s =
     (if list_ex (\<lambda>r. session_id r = session_id s) (sessions d)
      then (Inl (IntegrityErrorException ''sessions.id''), d)
      else (Inr (), d\<lparr>sessions := sessions d @ [s]\<rparr>))"

text \<open>
  A change to an attribute of a loaded row followed by \<open>db.flush()\<close>: the UPDATE of the
  row with that primary key.
\<close>

definition update_user_row :: "db \<Rightarrow> string \<Rightarrow> (user \<Rightarrow> user) \<Rightarrow> db" where
  "update_user_row d uid f =
     d\<lparr>users := map (\<lambda>u. if user_id u = uid then f u else u) (users d)\<rparr>"

text \<open>
  Modelled from the spec: the column defaults of the User model (app/models/user.py is
  not among the sources): a new user has created no session yet, so the "count of
  sessions created" starts at 0; the creation time is the clock reading passed in.
\<close>

definition User :: "string \<Rightarrow> string option \<Rightarrow> string option \<Rightarrow> timestamp \<Rightarrow> user" where
  "User uid nm ct now =
     \<lparr>user_id = uid, name = nm, city = ct, created_at = now, session_count = 0\<rparr>"

text \<open>
  Modelled from the spec: \<open>User.increment_session_count\<close> (app/models/user.py is not
  among the sources) adds one to the user's "count of sessions created".
\<close>

definition user_increment_session_count :: "user \<Rightarrow> user" where
  "user_increment_session_count u = u\<lparr>session_count := session_count u + 1\<rparr>"

section \<open>UserService (app/services/user_service.py)\<close>

definition user_exists :: "db \<Rightarrow> string \<Rightarrow> bool" where
  "user_exists d uid = (filter (\<lambda>u. user_id u = uid) (users d) \<noteq> [])"

text \<open>The number of rows of the users table that carry a given id.\<close>

definition rows_of :: "db \<Rightarrow> string \<Rightarrow> nat" where
  "rows_of d uid = length (filter (\<lambda>r. user_id r = uid) (users d))"

definition create_user ::
  "db \<Rightarrow> string \<Rightarrow> string option \<Rightarrow> string option \<Rightarrow> timestamp \<Rightarrow> (exception + user) \<times> db" where
  "create_user d uid nm ct now =
     (if user_exists d uid then (Inl (UserAlreadyExistsException uid), d)
      else (let u = User uid nm ct now;
                (r, d') = add_user d u
            in case r of
                 Inl e \<Rightarrow> (Inl e, d')
               | Inr _ \<Rightarrow> (Inr u, d')))"

definition get_user :: "db \<Rightarrow> string \<Rightarrow> exception + user" where
  "get_user d uid =
     (case db_get_user d uid of
        None \<Rightarrow> Inl (UserNotFoundException uid)
      | Some u \<Rightarrow> Inr u)"

definition update_user ::
  "db \<Rightarrow> string \<Rightarrow> string option \<Rightarrow> string option \<Rightarrow> (exception + user) \<times> db" where
  "update_user d uid nm ct =
     (case get_user d uid of
        Inl e \<Rightarrow> (Inl e, d)
      | Inr u \<Rightarrow>
          (let u1 = (if nm \<noteq> None then u\<lparr>name := nm\<rparr> else u);
               u2 = (if ct \<noteq> None then u1\<lparr>city := ct\<rparr> else u1)
           in (Inr u2, update_user_row d uid (\<lambda>_. u2))))"

definition get_or_create_user ::
  "db \<Rightarrow> string \<Rightarrow> string option \<Rightarrow> string option \<Rightarrow> timestamp \<Rightarrow> (exception + user) \<times> db" where
  "get_or_create_user d uid nm ct now =
     (case db_get_user d uid of
        Some u \<Rightarrow>
          (let upd1 = (nm \<noteq> None \<and> name u \<noteq> nm);
               u1 = (if upd1 then u\<lparr>name := nm\<rparr> else u);
               upd2 = (ct \<noteq> None \<and> city u1 \<noteq> ct);
               u2 = (if upd2 then u1\<lparr>city := ct\<rparr> else u1);
               updated = (upd1 \<or> upd2)
           in (Inr u2, if updated then update_user_row d uid (\<lambda>_. u2) else d))
      | None \<Rightarrow> create_user d uid nm ct now)"

definition increment_session_count :: "db \<Rightarrow> string \<Rightarrow> (exception + unit) \<times> db" where
  "increment_session_count d uid =
     (case get_user d uid of
        Inl e \<Rightarrow> (Inl e, d)
      | Inr u \<Rightarrow> (Inr (), update_user_row d uid (\<lambda>_. user_increment_session_count u)))"

section \<open>SessionService (app/services/session_service.py)\<close>

text \<open>
  Python's \<open>a or b\<close> on optional strings: \<open>a\<close> when it is truthy (neither \<open>None\<close> nor
  the empty string), \<open>b\<close> otherwise.
\<close>

definition truthy :: "string option \<Rightarrow> bool" where
  "truthy v = (case v of None \<Rightarrow> False | Some s \<Rightarrow> s \<noteq> [])"

definition py_or :: "string option \<Rightarrow> string option \<Rightarrow> string option" where
  "py_or a b = (if truthy a then a else b)"

text \<open>
  Modelled from the spec: the column defaults of the ChatSession model
  (app/models/session.py is not among the sources): a new session is \<open>active\<close>, has no
  message yet, and takes the identifier \<open>fresh\<close> (a newly drawn UUID) when the caller
  gives none. The source passes \<open>id\<close> on when \<open>if session_id:\<close> holds; a UUID object
  is always truthy, so that is the test for \<open>None\<close>.
\<close>

definition ChatSession ::
  "uuid option \<Rightarrow> string \<Rightarrow> string option \<Rightarrow> string option \<Rightarrow> uuid \<Rightarrow> timestamp \<Rightarrow> chat_session" where
  "ChatSession sid uid unm loc fresh now =
     \<lparr>session_id = (case sid of None \<Rightarrow> fresh | Some i \<Rightarrow> i),
      owner_id = uid, user_name = unm, location = loc,
      status = ACTIVE, message_count = 0, session_created_at = now\<rparr>"

definition create_session ::
  "db \<Rightarrow> string \<Rightarrow> uuid option \<Rightarrow> string option \<Rightarrow> string option \<Rightarrow> uuid \<Rightarrow> timestamp
     \<Rightarrow> (exception + chat_session) \<times> db" where
  "create_session d uid sid unm loc fresh now =
     (let (r1, d1) = get_or_create_user d uid None None now in
      case r1 of
        Inl e \<Rightarrow> (Inl e, d1)
      | Inr u \<Rightarrow>
          (let final_user_name = py_or unm (name u);
               final_location = py_or loc (city u);
               chat_session = ChatSession sid uid final_user_name final_location fresh now;
               (r2, d2) = add_session d1 chat_session
           in case r2 of
                Inl e \<Rightarrow> (Inl e, d2)
              | Inr _ \<Rightarrow>
                  (let (r3, d3) = increment_session_count d2 uid in
                   case r3 of
                     Inl e \<Rightarrow> (Inl e, d3)
                   | Inr _ \<Rightarrow> (Inr chat_session, d3))))"

definition get_session :: "db \<Rightarrow> uuid \<Rightarrow> exception + chat_session" where
  "get_session d sid =
     (case db_get_session d sid of
        None \<Rightarrow> Inl (SessionNotFoundException sid)
      | Some s \<Rightarrow> Inr s)"

text \<open>
  Modelled from the spec: the relationship between ChatSession and its messages
  (app/models/session.py is not among the sources): "deletion is terminal and cascades to
  its turns", so the DELETE of a session row removes the turns that belong to it.
\<close>

definition db_delete_session :: "db \<Rightarrow> chat_session \<Rightarrow> db" where
  "db_delete_session d s =
     d\<lparr>sessions := filter (\<lambda>r. session_id r \<noteq> session_id s) (sessions d),
       turns := filter (\<lambda>t. turn_session_id t \<noteq> session_id s) (turns d)\<rparr>"

definition delete_session :: "db \<Rightarrow> uuid \<Rightarrow> (exception + unit) \<times> db" where
  "delete_session d sid =
     (case get_session d sid of
        Inl e \<Rightarrow> (Inl e, d)
      | Inr s \<Rightarrow> (Inr (), db_delete_session d s))"

section \<open>Application settings (app/core/config.py)\<close>

record settings =
  context_window_size :: int
  max_message_length :: int
  rate_limit_per_minute :: int

definition default_settings :: settings where
  "default_settings =
     \<lparr>context_window_size = 10, max_message_length = 500, rate_limit_per_minute = 20\<rparr>"

section \<open>The context window\<close>

text \<open>
  Modelled from the spec: the ContextWindowBuilder (the chat service that assembles the
  context is not among the sources; only the setting \<open>context_window_size\<close> is). Its
  contract: "given a session identifier and the new user message, produce an ordered
  sequence of turns to present to the model: the most recent W persisted turns for the
  session (oldest first) followed by the new user message". Turns are "strictly ordered by
  creation time within a session", which is the order of insertion into the table.
\<close>

type_synonym chat_message = "role \<times> string"

definition session_turns :: "db \<Rightarrow> uuid \<Rightarrow> turn list" where
  "session_turns d sid = filter (\<lambda>t. turn_session_id t = sid) (turns d)"

definition most_recent :: "nat \<Rightarrow> 'a list \<Rightarrow> 'a list" where
  "most_recent w xs = drop (length xs - w) xs"

definition build_context :: "settings \<Rightarrow> db \<Rightarrow> uuid \<Rightarrow> string \<Rightarrow> chat_message list" where
  "build_context cfg d sid msg =
     map (\<lambda>t. (turn_role t, content t))
         (most_recent (nat (context_window_size cfg)) (session_turns d sid))
     @ [(UserRole, msg)]"

text \<open>
  Modelled from the spec: "The new message's content is rejected (validation error) if it
  exceeds the configured maximum length; this check happens before any model call."
\<close>

datatype validation_error = ValidationError

definition context_window_builder ::
  "settings \<Rightarrow> db \<Rightarrow> uuid \<Rightarrow> string \<Rightarrow> validation_error + chat_message list" where
  "context_window_builder cfg d sid msg =
     (if int (length msg) > max_message_length cfg then Inl ValidationError
      else Inr (build_context cfg d sid msg))"

section \<open>The chat endpoint's event generator (app/api/v1/chat.py)\<close>

text \<open>
  An event handed to the SSE transport is the dictionary the generator yields: the event
  name and the object passed to \<open>json.dumps\<close>, kept as its list of key/value pairs.
\<close>

record sse =
  event :: string
  data :: "(string \<times> string) list"

definition session_created_event :: "uuid \<Rightarrow> sse" where
  "session_created_event sid = \<lparr>event = ''session_created'', data = [(''session_id'', sid)]\<rparr>"

definition token_event :: "string \<Rightarrow> sse" where
  "token_event token = \<lparr>event = ''token'', data = [(''token'', token)]\<rparr>"

definition done_event :: "uuid \<Rightarrow> sse" where
  "done_event sid =
     \<lparr>event = ''done'', data = [(''status'', ''complete''), (''session_id'', sid)]\<rparr>"

definition error_event :: "string \<Rightarrow> sse" where
  "error_event e = \<lparr>event = ''error'', data = [(''error'', e)]\<rparr>"

text \<open>
  \<open>service.handle_chat\<close> is an asynchronous generator of the chat service, which is not
  among the sources; the event generator only iterates it. One run of it is the list of
  what each \<open>__anext__\<close> does: yield a token, raise an exception derived from
  \<open>Exception\<close> (kept as its \<open>str\<close>), or raise one that is not (\<open>CancelledError\<close>,
  \<open>GeneratorExit\<close>: the task is cancelled or the client is gone). The end of the list
  is the end of the iteration.
\<close>

datatype chat_step = Yield string | Raise string | Cancel

datatype loop_exit = Exhausted | Raised string | Cancelled

text \<open>The \<open>async for\<close> loop: the events yielded, and how the loop was left.\<close>

fun stream_tokens :: "chat_step list \<Rightarrow> sse list \<times> loop_exit" where
  "stream_tokens [] = ([], Exhausted)"
| "stream_tokens (Yield token # rest) =
     (let (evs, x) = stream_tokens rest in (token_event token # evs, x))"
| "stream_tokens (Raise e # rest) = ([], Raised e)"
| "stream_tokens (Cancel # rest) = ([], Cancelled)"

text \<open>
  How the generator itself ends: it returns, or an exception that \<open>except Exception\<close>
  does not catch leaves it.
\<close>

datatype completion = Returned | Propagated

definition event_generator :: "uuid \<Rightarrow> chat_step list \<Rightarrow> sse list \<times> completion" where
  "event_generator sid steps =
     (let (evs, x) = stream_tokens steps in
      case x of
        Exhausted \<Rightarrow> (session_created_event sid # evs @ [done_event sid], Returned)
      | Raised e \<Rightarrow> (session_created_event sid # evs @ [error_event e], Returned)
      | Cancelled \<Rightarrow> (session_created_event sid # evs, Propagated))"

text \<open>The tokens the chat service yields before its run ends or fails.\<close>

fun yielded :: "chat_step list \<Rightarrow> string list" where
  "yielded (Yield token # rest) = token # yielded rest"
| "yielded _ = []"

definition terminal :: "sse \<Rightarrow> bool" where
  "terminal e = (event e = ''done'' \<or> event e = ''error'')"

section \<open>Database start-up (app/db/engine.py)\<close>

text \<open>
  \<open>verify_connection\<close> is wrapped by tenacity's
  \<open>retry(stop=stop_after_attempt(5), wait=wait_fixed(2))\<close>: call the function; on an
  exception stop if the attempt number has reached the limit (raising \<open>RetryError\<close>),
  else sleep the fixed wait and call again. The database is the environment:
  \<open>connect k\<close> tells whether the \<open>k\<close>-th connection attempt (counted from 1) succeeds.
  What happens is recorded as a trace.
\<close>

datatype action = Attempt nat | Sleep nat

datatype startup_error = MigrationFailed | RetryError nat | RuntimeError startup_error

function retrying ::
  "nat \<Rightarrow> nat \<Rightarrow> (nat \<Rightarrow> bool) \<Rightarrow> nat \<Rightarrow> action list \<times> (startup_error + unit)" where
  "retrying stop_after wait connect attempt_number =
     (if connect attempt_number then ([Attempt attempt_number], Inr ())
      else if attempt_number \<ge> stop_after
        then ([Attempt attempt_number], Inl (RetryError attempt_number))
      else (let (tr, r) = retrying stop_after wait connect (attempt_number + 1)
            in (Attempt attempt_number # Sleep wait # tr, r)))"
  by pat_completeness auto
termination
  by (relation "measure (\<lambda>(stop_after, wait, connect, n). stop_after - n)") auto

definition verify_connection :: "(nat \<Rightarrow> bool) \<Rightarrow> action list \<times> (startup_error + unit)" where
  "verify_connection connect = retrying 5 2 connect 1"

text \<open>
  \<open>init_db\<close>: the migrations run first (\<open>migrations_ok\<close> tells whether
  \<open>command.upgrade\<close> returns), then the connection is verified; any exception becomes a
  \<open>RuntimeError\<close>.
\<close>

definition init_db :: "bool \<Rightarrow> (nat \<Rightarrow> bool) \<Rightarrow> action list \<times> (startup_error + unit)" where
  "init_db migrations_ok connect =
     (if \<not> migrations_ok then ([], Inl (RuntimeError MigrationFailed))
      else (let (tr, r) = verify_connection connect in
            case r of
              Inl e \<Rightarrow> (tr, Inl (RuntimeError e))
            | Inr _ \<Rightarrow> (tr, Inr ())))"

text \<open>
  The start-up half of \<open>lifespan\<close> (app/main.py): the application serves requests only
  once \<open>init_db\<close> has returned.
\<close>

datatype app_state = Serving | Aborted startup_error

definition lifespan_startup :: "bool \<Rightarrow> (nat \<Rightarrow> bool) \<Rightarrow> app_state" where
  "lifespan_startup migrations_ok connect =
     (case snd (init_db migrations_ok connect) of
        Inl e \<Rightarrow> Aborted e
      | Inr _ \<Rightarrow> Serving)"

definition attempts :: "action list \<Rightarrow> nat" where
  "attempts tr = length (filter (\<lambda>a. case a of Attempt _ \<Rightarrow> True | Sleep _ \<Rightarrow> False) tr)"

text \<open>
  The trace of attempts \<open>n\<close> to \<open>j\<close> with the wait \<open>w\<close> between two attempts.
\<close>

definition trace_until :: "nat \<Rightarrow> nat \<Rightarrow> nat \<Rightarrow> action list" where
  "trace_until w n j = concat (map (\<lambda>k. [Attempt k, Sleep w]) [n..<j]) @ [Attempt j]"

section \<open>The logging context (app/core/logging.py)\<close>

text \<open>
  The three context variables of the module. A \<open>contextvars\<close> context gives each
  variable either no value (the variable was never set there: \<open>get\<close> returns the
  default, \<open>None\<close>) or the value set, itself a string or \<open>None\<close>. \<open>set\<close> returns a
  token that remembers the variable and what the context held for it; \<open>reset\<close> puts
  that back.
\<close>

datatype context_var = request_id_var | session_id_var | user_id_var

datatype old_value = MISSING | Value "string option"

type_synonym contextvars = "context_var \<Rightarrow> old_value"

record token =
  var :: context_var
  old :: old_value

definition var_get :: "contextvars \<Rightarrow> context_var \<Rightarrow> string option" where
  "var_get ctx v = (case ctx v of MISSING \<Rightarrow> None | Value x \<Rightarrow> x)"

definition var_set :: "contextvars \<Rightarrow> context_var \<Rightarrow> string option \<Rightarrow> token \<times> contextvars" where
  "var_set ctx v x = (\<lparr>var = v, old = ctx v\<rparr>, ctx(v := Value x))"

definition var_reset :: "contextvars \<Rightarrow> token \<Rightarrow> contextvars" where
  "var_reset ctx tok = ctx(var tok := old tok)"

text \<open>
  The fields of a \<open>LogContext\<close> carry the prefix \<open>lc\<close>, the names \<open>session_id\<close>
  and \<open>user_id\<close> being fields of the tables above. A \<open>LogContext\<close> is built for one
  \<open>with\<close> statement, as at its call site in the chat endpoint: \<open>_tokens\<close> is never
  emptied, so leaving the same object a second time would reset a used token, which
  \<open>contextvars\<close> refuses with \<open>RuntimeError\<close>; the model is of the first use.
\<close>

record log_context =
  lc_request_id :: "string option"
  lc_session_id :: "string option"
  lc_user_id :: "string option"
  tokens :: "token list"

definition LogContext :: "string option \<Rightarrow> string option \<Rightarrow> string option \<Rightarrow> log_context" where
  "LogContext rid sid uid =
     \<lparr>lc_request_id = rid, lc_session_id = sid, lc_user_id = uid, tokens = []\<rparr>"

definition set_if ::
  "context_var \<Rightarrow> string option \<Rightarrow> log_context \<times> contextvars \<Rightarrow> log_context \<times> contextvars" where
  "set_if v x st =
     (let (lc, ctx) = st in
      if truthy x
      then (let (tok, ctx') = var_set ctx v x in (lc\<lparr>tokens := tokens lc @ [tok]\<rparr>, ctx'))
      else (lc, ctx))"

definition enter :: "log_context \<Rightarrow> contextvars \<Rightarrow> log_context \<times> contextvars" where
  "enter lc ctx =
     set_if user_id_var (lc_user_id lc)
       (set_if session_id_var (lc_session_id lc)
         (set_if request_id_var (lc_request_id lc) (lc, ctx)))"

definition exit_context :: "log_context \<Rightarrow> contextvars \<Rightarrow> contextvars" where
  "exit_context lc ctx = foldl var_reset ctx (rev (tokens lc))"

text \<open>
  The \<open>with\<close> statement: \<open>__enter__\<close>, the body, then \<open>__exit__\<close> on every way out of
  the body. The body returns \<open>None\<close> or the exception it raised, and may itself write the
  context; \<open>__exit__\<close> returns \<open>None\<close>, so an exception of the body goes on to the caller.
\<close>

definition with_LogContext ::
  "log_context \<Rightarrow> (contextvars \<Rightarrow> string option \<times> contextvars) \<Rightarrow> contextvars
     \<Rightarrow> string option \<times> contextvars" where
  "with_LogContext lc body ctx =
     (let (lc', ctx1) = enter lc ctx;
          (raised, ctx2) = body ctx1
      in (raised, exit_context lc' ctx2))"

text \<open>The variables a \<open>LogContext\<close> sets on entry: those whose argument is truthy.\<close>

definition managed :: "log_context \<Rightarrow> context_var \<Rightarrow> bool" where
  "managed lc v =
     (case v of
        request_id_var \<Rightarrow> truthy (lc_request_id lc)
      | session_id_var \<Rightarrow> truthy (lc_session_id lc)
      | user_id_var \<Rightarrow> truthy (lc_user_id lc))"

section \<open>Example stores\<close>

definition ali :: user where
  "ali = \<lparr>user_id = ''u1'', name = Some ''Ali'', city = Some ''Lahore'', created_at = 1,
          session_count = 2\<rparr>"

definition s1 :: chat_session where
  "s1 = \<lparr>session_id = ''s1'', owner_id = ''u1'', user_name = Some ''Ali'',
         location = Some ''Lahore'', status = ACTIVE, message_count = 1,
         session_created_at = 2\<rparr>"

definition db0 :: db where
  "db0 = \<lparr>users = [ali], sessions = [s1],
          turns = [\<lparr>turn_session_id = ''s1'', turn_role = UserRole, content = ''Hi'',
                    turn_created_at = 3\<rparr>,
                   \<lparr>turn_session_id = ''s1'', turn_role = AssistantRole, content = ''Hello'',
                    turn_created_at = 4\<rparr>]\<rparr>"

definition s2 :: chat_session where
  "s2 = \<lparr>session_id = ''s2'', owner_id = ''u1'', user_name = Some ''Bob'',
         location = Some ''Lahore'', status = ACTIVE, message_count = 0,
         session_created_at = 9\<rparr>"

section \<open>Facts about the store\<close>

lemma user_exists_iff: "user_exists d uid \<longleftrightarrow> (\<exists>u \<in> set (users d). user_id u = uid)"
  by (auto simp: user_exists_def filter_empty_conv)

lemma list_ex_user_iff: "list_ex (\<lambda>r. user_id r = uid) (users d) \<longleftrightarrow> user_exists d uid"
  by (simp add: user_exists_iff list_ex_iff)

lemma db_get_user_None_iff: "db_get_user d uid = None \<longleftrightarrow> \<not> user_exists d uid"
  by (auto simp: db_get_user_def user_exists_iff find_None_iff)

lemma find_user_id: "find (\<lambda>u. user_id u = uid) xs = Some u \<Longrightarrow> user_id u = uid"
  by (induction xs) (auto split: if_splits)

lemma db_get_user_id: "db_get_user d uid = Some u \<Longrightarrow> user_id u = uid"
  unfolding db_get_user_def by (rule find_user_id)

lemma find_map_same:
  "user_id v = uid \<Longrightarrow> find (\<lambda>u. user_id u = uid) xs = Some u \<Longrightarrow>
     find (\<lambda>u. user_id u = uid) (map (\<lambda>r. if user_id r = uid then v else r) xs) = Some v"
  by (induction xs) (auto split: if_splits)

lemma find_map_other:
  "user_id v = uid \<Longrightarrow> uid2 \<noteq> uid \<Longrightarrow>
     find (\<lambda>u. user_id u = uid2) (map (\<lambda>r. if user_id r = uid then v else r) xs)
       = find (\<lambda>u. user_id u = uid2) xs"
  by (induction xs) auto

lemma get_user_Inr: "get_user d uid = Inr u \<longleftrightarrow> db_get_user d uid = Some u"
  by (simp add: get_user_def split: option.splits)

lemma db_get_user_update_same:
  "user_id v = uid \<Longrightarrow> db_get_user d uid = Some u \<Longrightarrow>
     db_get_user (update_user_row d uid (\<lambda>_. v)) uid = Some v"
  by (simp add: db_get_user_def update_user_row_def find_map_same)

lemma db_get_user_update_other:
  "user_id v = uid \<Longrightarrow> uid2 \<noteq> uid \<Longrightarrow>
     db_get_user (update_user_row d uid (\<lambda>_. v)) uid2 = db_get_user d uid2"
  by (simp add: db_get_user_def update_user_row_def find_map_other)

section \<open>UserService: creation and update\<close>

lemma create_user_new:
  "\<not> user_exists d uid \<Longrightarrow>
     create_user d uid nm ct now
       = (Inr (User uid nm ct now), d\<lparr>users := users d @ [User uid nm ct now]\<rparr>)"
  by (simp add: create_user_def add_user_def list_ex_user_iff User_def Let_def)

lemma create_user_dup:
  "user_exists d uid \<Longrightarrow> create_user d uid nm ct now = (Inl (UserAlreadyExistsException uid), d)"
  by (simp add: create_user_def)

text \<open>
  C6. \<open>create_user\<close> raises \<open>UserAlreadyExistsException\<close> (status 409) exactly when a row
  with the given \<open>user_id\<close> is in the table, raises nothing else, and then leaves the
  store as it was; otherwise it returns the new user and the store has exactly that one
  row more, with the given id, name and city.
\<close>

theorem create_user_conflict:
  "(fst (create_user d uid nm ct now) = Inl (UserAlreadyExistsException uid)
      \<longleftrightarrow> (\<exists>u \<in> set (users d). user_id u = uid))
   \<and> ((\<exists>e. fst (create_user d uid nm ct now) = Inl e)
      \<longleftrightarrow> (\<exists>u \<in> set (users d). user_id u = uid))
   \<and> cls (UserAlreadyExistsException uid) = UserAlreadyExists
   \<and> status_code (UserAlreadyExistsException uid) = 409
   \<and> ((\<exists>u \<in> set (users d). user_id u = uid) \<longrightarrow> snd (create_user d uid nm ct now) = d)
   \<and> (\<not> (\<exists>u \<in> set (users d). user_id u = uid) \<longrightarrow>
        (let u = User uid nm ct now in
           create_user d uid nm ct now = (Inr u, d\<lparr>users := users d @ [u]\<rparr>)
           \<and> user_id u = uid \<and> name u = nm \<and> city u = ct))"
proof (cases "user_exists d uid")
  case True
  then show ?thesis
    using create_user_dup [OF True, of nm ct now]
    by (simp add: user_exists_iff UserAlreadyExistsException_def)
next
  case False
  then show ?thesis
    using create_user_new [OF False, of nm ct now]
    by (simp add: user_exists_iff UserAlreadyExistsException_def User_def Let_def)
qed

theorem create_user_conflict_witness:
  "create_user db0 ''u1'' (Some ''Bob'') None 7 = (Inl (UserAlreadyExistsException ''u1''), db0)
   \<and> create_user db0 ''u2'' (Some ''Bob'') None 7
       = (Inr (User ''u2'' (Some ''Bob'') None 7),
          db0\<lparr>users := users db0 @ [User ''u2'' (Some ''Bob'') None 7]\<rparr>)"
  using create_user_conflict [of db0 "''u1''" "Some ''Bob''" None 7]
        create_user_conflict [of db0 "''u2''" "Some ''Bob''" None 7]
  by (simp add: db0_def ali_def User_def Let_def prod_eq_iff)

lemma update_user_existing:
  "get_user d uid = Inr u \<Longrightarrow>
     update_user d uid nm ct
       = (let u' = u\<lparr>name := (case nm of None \<Rightarrow> name u | Some n \<Rightarrow> Some n),
                     city := (case ct of None \<Rightarrow> city u | Some c \<Rightarrow> Some c)\<rparr>
          in (Inr u', update_user_row d uid (\<lambda>_. u')))"
  by (cases nm; cases ct) (simp_all add: update_user_def Let_def)

text \<open>
  C10. For an existing user, \<open>update_user\<close> changes the name only when a name is passed
  and the city only when a city is passed: a field passed as \<open>None\<close> keeps its value (so a
  name or city that is set stays set), and \<open>user_id\<close>, \<open>created_at\<close> and
  \<open>session_count\<close> are unchanged. The updated row is the one stored for that id; the
  rows of other users, the sessions and the turns are untouched.
\<close>

theorem update_user_frame:
  assumes "get_user d uid = Inr u"
  shows "\<exists>u' d'. update_user d uid nm ct = (Inr u', d')
           \<and> name u' = (case nm of None \<Rightarrow> name u | Some n \<Rightarrow> Some n)
           \<and> city u' = (case ct of None \<Rightarrow> city u | Some c \<Rightarrow> Some c)
           \<and> (name u \<noteq> None \<longrightarrow> name u' \<noteq> None)
           \<and> (city u \<noteq> None \<longrightarrow> city u' \<noteq> None)
           \<and> user_id u' = user_id u
           \<and> created_at u' = created_at u
           \<and> session_count u' = session_count u
           \<and> db_get_user d' uid = Some u'
           \<and> (\<forall>uid2. uid2 \<noteq> uid \<longrightarrow> db_get_user d' uid2 = db_get_user d uid2)
           \<and> length (users d') = length (users d)
           \<and> sessions d' = sessions d \<and> turns d' = turns d"
proof -
  let ?u = "u\<lparr>name := (case nm of None \<Rightarrow> name u | Some n \<Rightarrow> Some n),
              city := (case ct of None \<Rightarrow> city u | Some c \<Rightarrow> Some c)\<rparr>"
  let ?d = "update_user_row d uid (\<lambda>_. ?u)"
  from assms have g: "db_get_user d uid = Some u" by (simp add: get_user_Inr)
  then have "user_id u = uid" by (rule db_get_user_id)
  then have id: "user_id ?u = uid" by simp
  have 1: "update_user d uid nm ct = (Inr ?u, ?d)"
    using update_user_existing [OF assms, of nm ct] by (simp add: Let_def)
  have 2: "db_get_user ?d uid = Some ?u"
    using id g by (rule db_get_user_update_same)
  have 3: "\<forall>uid2. uid2 \<noteq> uid \<longrightarrow> db_get_user ?d uid2 = db_get_user d uid2"
    using id by (simp add: db_get_user_update_other)
  have 4: "length (users ?d) = length (users d) \<and> sessions ?d = sessions d \<and> turns ?d = turns d"
    by (simp add: update_user_row_def)
  show ?thesis
    apply (rule exI [of _ ?u])
    apply (rule exI [of _ ?d])
    using 1 2 3 4 by (simp split: option.splits)
qed

theorem update_user_frame_witness:
  "get_user db0 ''u1'' = Inr ali
   \<and> fst (update_user db0 ''u1'' None (Some ''Multan''))
       = Inr \<lparr>user_id = ''u1'', name = Some ''Ali'', city = Some ''Multan'',
              created_at = 1, session_count = 2\<rparr>"
proof -
  have h: "get_user db0 ''u1'' = Inr ali"
    by (simp add: get_user_def db_get_user_def db0_def ali_def)
  show ?thesis
    using h update_user_frame [OF h, of None "Some ''Multan''"]
    by (simp add: update_user_def get_user_def db_get_user_def db0_def ali_def
        update_user_row_def Let_def)
qed

section \<open>SessionService: creation\<close>

lemma get_or_create_user_existing:
  "db_get_user d uid = Some u \<Longrightarrow> get_or_create_user d uid None None now = (Inr u, d)"
  by (simp add: get_or_create_user_def)

lemma get_or_create_user_new:
  assumes "\<not> user_exists d uid"
  shows "get_or_create_user d uid None None now
           = (Inr (User uid None None now), d\<lparr>users := users d @ [User uid None None now]\<rparr>)"
proof -
  from assms have "db_get_user d uid = None" by (simp add: db_get_user_None_iff)
  then have "get_or_create_user d uid None None now = create_user d uid None None now"
    by (simp add: get_or_create_user_def)
  with assms show ?thesis by (simp add: create_user_new)
qed

lemma find_snoc:
  "find P (xs @ [x]) = (case find P xs of Some y \<Rightarrow> Some y | None \<Rightarrow> if P x then Some x else None)"
  by (induction xs) auto

lemma db_get_user_appended:
  "\<not> user_exists d uid \<Longrightarrow> user_id u = uid \<Longrightarrow>
     db_get_user (d\<lparr>users := users d @ [u]\<rparr>) uid = Some u"
  using db_get_user_None_iff [of d uid] by (simp add: db_get_user_def find_snoc)

lemma db_get_user_appended_other:
  "user_id u = uid \<Longrightarrow> uid2 \<noteq> uid \<Longrightarrow>
     db_get_user (d\<lparr>users := users d @ [u]\<rparr>) uid2 = db_get_user d uid2"
  by (simp add: db_get_user_def find_snoc split: option.splits)

lemma increment_session_count_found:
  "db_get_user d uid = Some u \<Longrightarrow>
     increment_session_count d uid
       = (Inr (), update_user_row d uid (\<lambda>_. u\<lparr>session_count := session_count u + 1\<rparr>))"
  by (simp add: increment_session_count_def get_user_def user_increment_session_count_def)

lemma create_session_steps:
  assumes g: "get_or_create_user d uid None None now = (Inr u0, d1)"
    and u: "db_get_user d1 uid = Some u0"
    and f: "\<not> list_ex (\<lambda>r. session_id r = (case sid of None \<Rightarrow> fresh | Some i \<Rightarrow> i)) (sessions d1)"
  shows "create_session d uid sid unm loc fresh now
           = (Inr (ChatSession sid uid (py_or unm (name u0)) (py_or loc (city u0)) fresh now),
              update_user_row
                (d1\<lparr>sessions := sessions d1
                     @ [ChatSession sid uid (py_or unm (name u0)) (py_or loc (city u0)) fresh now]\<rparr>)
                uid (\<lambda>_. u0\<lparr>session_count := session_count u0 + 1\<rparr>))"
proof -
  let ?cs = "ChatSession sid uid (py_or unm (name u0)) (py_or loc (city u0)) fresh now"
  let ?d2 = "d1\<lparr>sessions := sessions d1 @ [?cs]\<rparr>"
  have a: "add_session d1 ?cs = (Inr (), ?d2)"
    using f by (simp add: add_session_def ChatSession_def)
  have "db_get_user ?d2 uid = Some u0"
    using u by (simp add: db_get_user_def)
  then have i: "increment_session_count ?d2 uid
                  = (Inr (), update_user_row ?d2 uid (\<lambda>_. u0\<lparr>session_count := session_count u0 + 1\<rparr>))"
    by (rule increment_session_count_found)
  show ?thesis
    by (simp add: create_session_def g a i Let_def)
qed

lemma map_user_id_update:
  "user_id v = uid \<Longrightarrow>
     map user_id (map (\<lambda>r. if user_id r = uid then v else r) xs) = map user_id xs"
  by (induction xs) auto

lemma filter_user_id_update:
  "user_id v = uid \<Longrightarrow>
     length (filter (\<lambda>r. user_id r = k) (map (\<lambda>r. if user_id r = uid then v else r) xs))
       = length (filter (\<lambda>r. user_id r = k) xs)"
  by (induction xs) auto

lemma filter_user_id_absent:
  "\<not> user_exists d uid \<Longrightarrow> filter (\<lambda>r. user_id r = uid) (users d) = []"
  by (simp add: user_exists_def)

lemma create_session_effect:
  assumes g: "get_or_create_user d uid None None now = (Inr u0, d1)"
    and u: "db_get_user d1 uid = Some u0"
    and s: "sessions d1 = sessions d"
    and f: "\<not> list_ex (\<lambda>r. session_id r = (case sid of None \<Rightarrow> fresh | Some i \<Rightarrow> i)) (sessions d)"
  shows "\<exists>cs d'. create_session d uid sid unm loc fresh now = (Inr cs, d')
           \<and> users d' = map (\<lambda>r. if user_id r = uid
                                  then u0\<lparr>session_count := session_count u0 + 1\<rparr> else r) (users d1)
           \<and> db_get_user d' uid = Some (u0\<lparr>session_count := session_count u0 + 1\<rparr>)
           \<and> (\<forall>k. rows_of d' k = rows_of d1 k)
           \<and> map user_id (users d') = map user_id (users d1)
           \<and> (\<forall>uid2. uid2 \<noteq> uid \<longrightarrow> db_get_user d' uid2 = db_get_user d1 uid2)
           \<and> sessions d' = sessions d @ [cs] \<and> owner_id cs = uid \<and> turns d' = turns d1"
proof -
  let ?cs = "ChatSession sid uid (py_or unm (name u0)) (py_or loc (city u0)) fresh now"
  let ?d2 = "d1\<lparr>sessions := sessions d1 @ [?cs]\<rparr>"
  let ?u = "u0\<lparr>session_count := session_count u0 + 1\<rparr>"
  let ?d = "update_user_row ?d2 uid (\<lambda>_. ?u)"
  from u have "user_id u0 = uid" by (rule db_get_user_id)
  then have id: "user_id ?u = uid" by simp
  have 1: "create_session d uid sid unm loc fresh now = (Inr ?cs, ?d)"
  proof -
    from f s have f1: "\<not> list_ex (\<lambda>r. session_id r = (case sid of None \<Rightarrow> fresh | Some i \<Rightarrow> i)) (sessions d1)"
      by simp
    show ?thesis using create_session_steps [OF g u f1, of unm loc] s by simp
  qed
  have "db_get_user ?d2 uid = Some u0" using u by (simp add: db_get_user_def)
  with id have 2: "db_get_user ?d uid = Some ?u" by (rule db_get_user_update_same)
  have "\<forall>uid2. uid2 \<noteq> uid \<longrightarrow> db_get_user ?d uid2 = db_get_user ?d2 uid2"
    using id by (simp add: db_get_user_update_other)
  then have 3: "\<forall>uid2. uid2 \<noteq> uid \<longrightarrow> db_get_user ?d uid2 = db_get_user d1 uid2"
    by (simp add: db_get_user_def)
  have 4: "users ?d = map (\<lambda>r. if user_id r = uid then ?u else r) (users d1)"
    by (simp add: update_user_row_def)
  have 5: "\<forall>k. rows_of ?d k = rows_of d1 k"
    unfolding rows_of_def 4 using filter_user_id_update [OF id] by simp
  have 6: "map user_id (users ?d) = map user_id (users d1)"
    unfolding 4 using id by (rule map_user_id_update)
  have 7: "sessions ?d = sessions d @ [?cs] \<and> owner_id ?cs = uid \<and> turns ?d = turns d1"
    using s by (simp add: update_user_row_def ChatSession_def)
  show ?thesis
    apply (rule exI [of _ ?cs])
    apply (rule exI [of _ ?d])
    using 1 2 3 4 5 6 7 by simp
qed

text \<open>
  C4. When the session identifier is free, \<open>create_session\<close> succeeds, and:
  the user row is there before the session row is added (\<open>get_or_create_user\<close> runs
  first: it appends a fresh row when no row has that id, and touches nothing when one
  has); the session count of that user is one more than it was (one more than 0 for a
  fresh user); no row of the id is added for a user who exists, exactly one for a user
  who does not; every other user is as before; and the primary key stays unique.
\<close>

theorem create_session_user_row:
  assumes "\<not> list_ex (\<lambda>r. session_id r = (case sid of None \<Rightarrow> fresh | Some i \<Rightarrow> i)) (sessions d)"
  shows "\<exists>u0 d1 cs d'.
           get_or_create_user d uid None None now = (Inr u0, d1)
           \<and> create_session d uid sid unm loc fresh now = (Inr cs, d')
           \<and> sessions d1 = sessions d \<and> db_get_user d1 uid = Some u0
           \<and> (user_exists d uid \<longrightarrow> d1 = d \<and> db_get_user d uid = Some u0)
           \<and> (\<not> user_exists d uid \<longrightarrow>
                 users d1 = users d @ [u0] \<and> u0 = User uid None None now \<and> session_count u0 = 0)
           \<and> db_get_user d' uid = Some (u0\<lparr>session_count := session_count u0 + 1\<rparr>)
           \<and> rows_of d' uid = (if user_exists d uid then rows_of d uid else 1)
           \<and> length (users d') = (if user_exists d uid then length (users d) else length (users d) + 1)
           \<and> (\<forall>uid2. uid2 \<noteq> uid \<longrightarrow> db_get_user d' uid2 = db_get_user d uid2)
           \<and> (distinct (map user_id (users d)) \<longrightarrow> distinct (map user_id (users d')))
           \<and> sessions d' = sessions d @ [cs] \<and> owner_id cs = uid"
proof (cases "user_exists d uid")
  case True
  then obtain u0 where u: "db_get_user d uid = Some u0"
    using db_get_user_None_iff [of d uid] by auto
  then have g: "get_or_create_user d uid None None now = (Inr u0, d)"
    by (rule get_or_create_user_existing)
  from create_session_effect [OF g u refl assms, of unm loc]
  obtain cs d' where e: "create_session d uid sid unm loc fresh now = (Inr cs, d')"
    "db_get_user d' uid = Some (u0\<lparr>session_count := session_count u0 + 1\<rparr>)"
    "\<forall>k. rows_of d' k = rows_of d k"
    "map user_id (users d') = map user_id (users d)"
    "\<forall>uid2. uid2 \<noteq> uid \<longrightarrow> db_get_user d' uid2 = db_get_user d uid2"
    "sessions d' = sessions d @ [cs]" "owner_id cs = uid"
    by blast
  from e(4) have "length (users d') = length (users d)" by (metis length_map)
  with True g u e show ?thesis by simp
next
  case False
  let ?u0 = "User uid None None now"
  let ?d1 = "d\<lparr>users := users d @ [?u0]\<rparr>"
  have g: "get_or_create_user d uid None None now = (Inr ?u0, ?d1)"
    using False by (rule get_or_create_user_new)
  have id: "user_id ?u0 = uid" by (simp add: User_def)
  have u: "db_get_user ?d1 uid = Some ?u0"
    using False id by (rule db_get_user_appended)
  have s: "sessions ?d1 = sessions d" by simp
  from create_session_effect [OF g u s assms, of unm loc]
  obtain cs d' where e: "create_session d uid sid unm loc fresh now = (Inr cs, d')"
    "db_get_user d' uid = Some (?u0\<lparr>session_count := session_count ?u0 + 1\<rparr>)"
    "\<forall>k. rows_of d' k = rows_of ?d1 k"
    "map user_id (users d') = map user_id (users ?d1)"
    "\<forall>uid2. uid2 \<noteq> uid \<longrightarrow> db_get_user d' uid2 = db_get_user ?d1 uid2"
    "sessions d' = sessions d @ [cs]" "owner_id cs = uid"
    by blast
  have r: "rows_of d' uid = 1"
    using e(3) False id by (simp add: rows_of_def filter_user_id_absent)
  from e(4) have "length (users d') = length (users ?d1)" by (metis length_map)
  then have l: "length (users d') = length (users d) + 1" by simp
  have o: "\<forall>uid2. uid2 \<noteq> uid \<longrightarrow> db_get_user d' uid2 = db_get_user d uid2"
    using e(5) id by (simp add: db_get_user_appended_other)
  have k: "distinct (map user_id (users d)) \<longrightarrow> distinct (map user_id (users d'))"
    using e(4) False id by (auto simp: user_exists_iff)
  have z: "session_count ?u0 = 0" by (simp add: User_def)
  show ?thesis
    apply (rule exI [of _ ?u0])
    apply (rule exI [of _ ?d1])
    apply (rule exI [of _ cs])
    apply (rule exI [of _ d'])
    using False g u e(1,2,6,7) r l o k z by simp
qed

lemmas store_defs =
  create_session_def get_or_create_user_def create_user_def add_user_def add_session_def
  increment_session_count_def get_user_def db_get_user_def update_user_row_def
  user_increment_session_count_def user_exists_def User_def ChatSession_def py_or_def
  truthy_def db0_def ali_def s1_def Let_def

theorem create_session_user_row_witness:
  "\<not> list_ex (\<lambda>r. session_id r = ''s2'') (sessions db0)
   \<and> users (snd (create_session db0 ''u2'' None None None ''s2'' 9))
       = [ali, \<lparr>user_id = ''u2'', name = None, city = None, created_at = 9, session_count = 1\<rparr>]
   \<and> users (snd (create_session db0 ''u1'' None None None ''s2'' 9))
       = [ali\<lparr>session_count := 3\<rparr>]"
  using create_session_user_row [where sid = None and fresh = "''s2''" and d = db0
          and uid = "''u2''" and now = 9 and unm = None and loc = None]
        create_session_user_row [where sid = None and fresh = "''s2''" and d = db0
          and uid = "''u1''" and now = 9 and unm = None and loc = None]
  by (simp add: store_defs)

text \<open>
  The profile a session inherits from: the stored row of the owner, or no name and no city
  when the owner is created by this very call.
\<close>

lemma create_session_fields:
  assumes "create_session d uid sid unm loc fresh now = (Inr cs, d')"
  shows "user_name cs = py_or unm (case db_get_user d uid of None \<Rightarrow> None | Some u \<Rightarrow> name u)
         \<and> location cs = py_or loc (case db_get_user d uid of None \<Rightarrow> None | Some u \<Rightarrow> city u)"
proof (cases "db_get_user d uid")
  case None
  then have "\<not> user_exists d uid" by (simp add: db_get_user_None_iff)
  then have g: "get_or_create_user d uid None None now
                  = (Inr (User uid None None now), d\<lparr>users := users d @ [User uid None None now]\<rparr>)"
    by (rule get_or_create_user_new)
  show ?thesis
    using assms None
    by (auto simp: create_session_def g Let_def ChatSession_def User_def
        split: prod.splits sum.splits)
next
  case (Some u)
  then have g: "get_or_create_user d uid None None now = (Inr u, d)"
    by (rule get_or_create_user_existing)
  show ?thesis
    using assms Some
    by (auto simp: create_session_def g Let_def ChatSession_def split: prod.splits sum.splits)
qed

text \<open>
  C5, as the code has it. The session's display name is the supplied \<open>user_name\<close> when
  that is a non-empty string, and otherwise (\<open>None\<close> or the empty string) the name in the
  owner's profile; its location is the supplied \<open>location\<close> when that is a non-empty
  string, and otherwise the city in the owner's profile.
\<close>

theorem create_session_inherits:
  assumes "create_session d uid sid unm loc fresh now = (Inr cs, d')"
  shows "user_name cs =
           (case unm of
              Some n \<Rightarrow> if n \<noteq> [] then Some n
                        else (case db_get_user d uid of None \<Rightarrow> None | Some u \<Rightarrow> name u)
            | None \<Rightarrow> (case db_get_user d uid of None \<Rightarrow> None | Some u \<Rightarrow> name u))
         \<and> location cs =
           (case loc of
              Some l \<Rightarrow> if l \<noteq> [] then Some l
                        else (case db_get_user d uid of None \<Rightarrow> None | Some u \<Rightarrow> city u)
            | None \<Rightarrow> (case db_get_user d uid of None \<Rightarrow> None | Some u \<Rightarrow> city u))"
  using create_session_fields [OF assms]
  by (simp add: py_or_def truthy_def split: option.splits)

theorem create_session_inherits_witness:
  "create_session db0 ''u1'' None (Some ''Bob'') None ''s2'' 9
     = (Inr s2, db0\<lparr>users := [ali\<lparr>session_count := 3\<rparr>], sessions := [s1, s2]\<rparr>)
   \<and> user_name s2 = Some ''Bob'' \<and> location s2 = Some ''Lahore''"
proof -
  have h: "create_session db0 ''u1'' None (Some ''Bob'') None ''s2'' 9
             = (Inr s2, db0\<lparr>users := [ali\<lparr>session_count := 3\<rparr>], sessions := [s1, s2]\<rparr>)"
    by (simp add: store_defs s2_def)
  show ?thesis
    using h create_session_inherits [OF h]
    by (simp add: s2_def)
qed

text \<open>
  The claim as the spec words it fails for a supplied empty string: the caller passes the
  display name \<open>\<close> and the location \<open>\<close>, and the session gets the profile's
  \<open>Ali\<close> and \<open>Lahore\<close>.
\<close>

theorem create_session_empty_name_counterexample:
  "fst (create_session db0 ''u1'' None (Some []) (Some []) ''s2'' 9)
     = Inr \<lparr>session_id = ''s2'', owner_id = ''u1'', user_name = Some ''Ali'',
            location = Some ''Lahore'', status = ACTIVE, message_count = 0,
            session_created_at = 9\<rparr>
   \<and> Some ''Ali'' \<noteq> Some ([] :: string) \<and> Some ''Lahore'' \<noteq> Some ([] :: string)"
  by (simp add: store_defs)

section \<open>SessionService: deletion\<close>

lemma find_session_id: "find (\<lambda>s. session_id s = sid) xs = Some s \<Longrightarrow> session_id s = sid"
  by (induction xs) (auto split: if_splits)

lemma find_session_removed:
  "find (\<lambda>s. session_id s = sid) (filter (\<lambda>r. session_id r \<noteq> sid) xs) = None"
  by (induction xs) auto

lemma find_session_kept:
  "sid2 \<noteq> sid \<Longrightarrow>
     find (\<lambda>s. session_id s = sid2) (filter (\<lambda>r. session_id r \<noteq> sid) xs)
       = find (\<lambda>s. session_id s = sid2) xs"
  by (induction xs) auto

lemma turns_removed:
  "filter (\<lambda>t. turn_session_id t = sid) (filter (\<lambda>t. turn_session_id t \<noteq> sid) ts) = []"
  by (induction ts) auto

lemma turns_kept:
  "sid2 \<noteq> sid \<Longrightarrow>
     filter (\<lambda>t. turn_session_id t = sid2) (filter (\<lambda>t. turn_session_id t \<noteq> sid) ts)
       = filter (\<lambda>t. turn_session_id t = sid2) ts"
  by (induction ts) auto

text \<open>
  C8. For an existing session, \<open>delete_session\<close> succeeds; afterwards \<open>get_session\<close>
  with the same id raises \<open>SessionNotFoundException\<close> and the session has no turn left,
  while the table of users is exactly as before (so the owner's row and its session count
  are unchanged) and every other session keeps its row and its turns.
\<close>

theorem delete_session_frame:
  assumes "get_session d sid = Inr s"
  shows "\<exists>d'. delete_session d sid = (Inr (), d')
           \<and> get_session d' sid = Inl (SessionNotFoundException sid)
           \<and> session_turns d' sid = []
           \<and> users d' = users d
           \<and> get_user d' (owner_id s) = get_user d (owner_id s)
           \<and> (\<forall>sid2. sid2 \<noteq> sid \<longrightarrow>
                 get_session d' sid2 = get_session d sid2
                 \<and> session_turns d' sid2 = session_turns d sid2)"
proof -
  let ?d = "db_delete_session d s"
  from assms have "db_get_session d sid = Some s"
    by (simp add: get_session_def split: option.splits)
  then have id: "session_id s = sid"
    unfolding db_get_session_def by (rule find_session_id)
  have 1: "delete_session d sid = (Inr (), ?d)"
    using assms by (simp add: delete_session_def)
  have 2: "get_session ?d sid = Inl (SessionNotFoundException sid)"
    by (simp add: get_session_def db_get_session_def db_delete_session_def id
        find_session_removed)
  have 3: "session_turns ?d sid = []"
    by (simp add: session_turns_def db_delete_session_def id turns_removed del: filter_filter)
  have 4: "users ?d = users d"
    by (simp add: db_delete_session_def)
  then have 5: "get_user ?d (owner_id s) = get_user d (owner_id s)"
    by (simp add: get_user_def db_get_user_def)
  have 6: "\<forall>sid2. sid2 \<noteq> sid \<longrightarrow>
             get_session ?d sid2 = get_session d sid2
             \<and> session_turns ?d sid2 = session_turns d sid2"
    by (simp add: get_session_def db_get_session_def session_turns_def db_delete_session_def
        id find_session_kept turns_kept del: filter_filter)
  show ?thesis
    apply (rule exI [of _ ?d])
    using 1 2 3 4 5 6 by simp
qed

theorem delete_session_frame_witness:
  "get_session db0 ''s1'' = Inr s1
   \<and> delete_session db0 ''s1'' = (Inr (), \<lparr>users = [ali], sessions = [], turns = []\<rparr>)
   \<and> get_session (snd (delete_session db0 ''s1'')) ''s1''
       = Inl (SessionNotFoundException ''s1'')
   \<and> get_user (snd (delete_session db0 ''s1'')) ''u1'' = Inr ali"
proof -
  have h: "get_session db0 ''s1'' = Inr s1"
    by (simp add: get_session_def db_get_session_def db0_def s1_def)
  show ?thesis
    using h delete_session_frame [OF h]
    by (simp add: delete_session_def get_session_def db_get_session_def db_delete_session_def
        get_user_def db_get_user_def db0_def s1_def ali_def)
qed

section \<open>The event stream of a chat request\<close>

lemma stream_tokens_events: "fst (stream_tokens steps) = map token_event (yielded steps)"
  by (induction steps rule: stream_tokens.induct) (auto split: prod.splits)

lemma stream_tokens_raise:
  "stream_tokens (map Yield toks @ Raise e # rest) = (map token_event toks, Raised e)"
  by (induction toks) auto

lemma token_not_session_created:
  "filter (\<lambda>e. event e = ''session_created'') (map token_event toks) = []"
  by (induction toks) (auto simp: token_event_def)

lemma token_not_terminal: "filter terminal (map token_event toks) = []"
  by (induction toks) (auto simp: token_event_def terminal_def)

lemma token_not_error: "filter (\<lambda>e. event e = ''error'') (map token_event toks) = []"
  by (induction toks) (auto simp: token_event_def)

lemma event_generator_shape:
  "fst (event_generator sid steps)
     = session_created_event sid # map token_event (yielded steps)
       @ (case snd (stream_tokens steps) of
            Exhausted \<Rightarrow> [done_event sid]
          | Raised e \<Rightarrow> [error_event e]
          | Cancelled \<Rightarrow> [])"
  using stream_tokens_events [of steps]
  by (auto simp: event_generator_def split: prod.splits loop_exit.splits)

lemma yielded_split: "steps = map Yield (yielded steps) @ drop (length (yielded steps)) steps"
  by (induction steps rule: yielded.induct) auto

lemma yielded_stop: "drop (length (yielded steps)) steps \<noteq> Yield t # r"
  by (induction steps rule: yielded.induct) auto

lemma stream_tokens_exit:
  "snd (stream_tokens steps)
     = (case drop (length (yielded steps)) steps of
          [] \<Rightarrow> Exhausted
        | Yield t # r \<Rightarrow> Exhausted
        | Raise e # r \<Rightarrow> Raised e
        | Cancel # r \<Rightarrow> Cancelled)"
  by (induction steps rule: stream_tokens.induct) (auto split: prod.splits)

text \<open>
  C1. The events of one request are: \<open>session_created\<close> with the session's id, then one
  \<open>token\<close> event for each token the chat service yields, carrying that token, in the
  order yielded, then at most one terminal event, \<open>done\<close> or \<open>error\<close>. So exactly one
  event is \<open>session_created\<close> and it is the first, at most one event is terminal, and a
  terminal event is the last event. The tokens are those of the run up to its first step
  that is not a yield; the terminal event is \<open>done\<close> when the run ends there, \<open>error\<close>
  with the exception's text when it raises there, and absent when it is cancelled there.
\<close>

theorem event_generator_order:
  "\<exists>last. fst (event_generator sid steps)
             = session_created_event sid # map token_event (yielded steps) @ last
      \<and> (last = [] \<or> last = [done_event sid] \<or> (\<exists>e. last = [error_event e]))
      \<and> length (filter (\<lambda>e. event e = ''session_created'') (fst (event_generator sid steps))) = 1
      \<and> length (filter terminal (fst (event_generator sid steps))) \<le> 1
      \<and> (\<forall>i < length (fst (event_generator sid steps)).
            terminal (fst (event_generator sid steps) ! i)
              \<longrightarrow> Suc i = length (fst (event_generator sid steps)))
      \<and> fst (event_generator sid steps)
          = \<lparr>event = ''session_created'', data = [(''session_id'', sid)]\<rparr>
            # map (\<lambda>t. \<lparr>event = ''token'', data = [(''token'', t)]\<rparr>) (yielded steps) @ last
      \<and> (last = []
           \<or> last = [\<lparr>event = ''done'',
                       data = [(''status'', ''complete''), (''session_id'', sid)]\<rparr>]
           \<or> (\<exists>e. last = [\<lparr>event = ''error'', data = [(''error'', e)]\<rparr>]))
      \<and> steps = map Yield (yielded steps) @ drop (length (yielded steps)) steps
      \<and> (\<forall>t r. drop (length (yielded steps)) steps \<noteq> Yield t # r)
      \<and> (drop (length (yielded steps)) steps = [] \<longrightarrow>
            last = [\<lparr>event = ''done'',
                     data = [(''status'', ''complete''), (''session_id'', sid)]\<rparr>])
      \<and> (\<forall>e r. drop (length (yielded steps)) steps = Raise e # r \<longrightarrow>
            last = [\<lparr>event = ''error'', data = [(''error'', e)]\<rparr>])
      \<and> (\<forall>r. drop (length (yielded steps)) steps = Cancel # r \<longrightarrow> last = [])"
proof -
  let ?last = "case snd (stream_tokens steps) of
                 Exhausted \<Rightarrow> [done_event sid]
               | Raised e \<Rightarrow> [error_event e]
               | Cancelled \<Rightarrow> []"
  let ?out = "fst (event_generator sid steps)"
  have shape: "?out = session_created_event sid # map token_event (yielded steps) @ ?last"
    by (rule event_generator_shape)
  have kinds: "?last = [] \<or> ?last = [done_event sid] \<or> (\<exists>e. ?last = [error_event e])"
    by (cases "snd (stream_tokens steps)") auto
  have sc: "\<not> terminal (session_created_event sid)"
    by (simp add: terminal_def session_created_event_def)
  have one: "length (filter (\<lambda>e. event e = ''session_created'') ?out) = 1"
    unfolding shape
    by (simp add: token_not_session_created session_created_event_def done_event_def
        error_event_def split: loop_exit.splits)
  have most: "length (filter terminal ?out) \<le> 1"
    unfolding shape by (simp add: token_not_terminal sc split: loop_exit.splits)
  have at_end: "\<forall>i < length ?out. terminal (?out ! i) \<longrightarrow> Suc i = length ?out"
  proof (intro allI impI)
    fix i assume i: "i < length ?out" and t: "terminal (?out ! i)"
    let ?n = "length (yielded steps)"
    have "\<not> i \<le> ?n"
    proof
      assume le: "i \<le> ?n"
      show False
      proof (cases i)
        case 0
        with t sc shape show False by simp
      next
        case (Suc j)
        with le have "j < ?n" by simp
        then have "?out ! i = token_event (yielded steps ! j)"
          using Suc by (simp add: shape nth_append)
        with t show False by (simp add: terminal_def token_event_def)
      qed
    qed
    moreover have "length ?out \<le> ?n + 2"
      unfolding shape by (simp split: loop_exit.splits)
    ultimately show "Suc i = length ?out" using i by simp
  qed
  have recs: "?out = \<lparr>event = ''session_created'', data = [(''session_id'', sid)]\<rparr>
                  # map (\<lambda>t. \<lparr>event = ''token'', data = [(''token'', t)]\<rparr>) (yielded steps)
                  @ ?last"
    unfolding shape by (simp add: session_created_event_def token_event_def)
  have kinds_recs:
    "?last = []
     \<or> ?last = [\<lparr>event = ''done'', data = [(''status'', ''complete''), (''session_id'', sid)]\<rparr>]
     \<or> (\<exists>e. ?last = [\<lparr>event = ''error'', data = [(''error'', e)]\<rparr>])"
    by (cases "snd (stream_tokens steps)") (auto simp: done_event_def error_event_def)
  have split: "steps = map Yield (yielded steps) @ drop (length (yielded steps)) steps"
    by (rule yielded_split)
  have stop: "\<forall>t r. drop (length (yielded steps)) steps \<noteq> Yield t # r"
    by (simp add: yielded_stop)
  have ended: "drop (length (yielded steps)) steps = [] \<longrightarrow>
                 ?last = [\<lparr>event = ''done'',
                           data = [(''status'', ''complete''), (''session_id'', sid)]\<rparr>]"
    by (simp add: stream_tokens_exit done_event_def)
  have raised: "\<forall>e r. drop (length (yielded steps)) steps = Raise e # r \<longrightarrow>
                  ?last = [\<lparr>event = ''error'', data = [(''error'', e)]\<rparr>]"
    by (simp add: stream_tokens_exit error_event_def)
  have cancelled: "\<forall>r. drop (length (yielded steps)) steps = Cancel # r \<longrightarrow> ?last = []"
    by (simp add: stream_tokens_exit)
  show ?thesis
    apply (rule exI [of _ ?last])
    apply (intro conjI)
    using shape apply blast
    using kinds apply blast
    using one apply blast
    using most apply blast
    using at_end apply blast
    using recs apply blast
    using kinds_recs apply blast
    using split apply blast
    using stop apply blast
    using ended apply blast
    using raised apply blast
    using cancelled apply blast
    done
qed

theorem event_generator_order_witness:
  "fst (event_generator ''s1'' [Yield ''Hel'', Yield ''lo''])
     = [\<lparr>event = ''session_created'', data = [(''session_id'', ''s1'')]\<rparr>,
        \<lparr>event = ''token'', data = [(''token'', ''Hel'')]\<rparr>,
        \<lparr>event = ''token'', data = [(''token'', ''lo'')]\<rparr>,
        \<lparr>event = ''done'', data = [(''status'', ''complete''), (''session_id'', ''s1'')]\<rparr>]
   \<and> terminal (fst (event_generator ''s1'' [Yield ''Hel'', Yield ''lo'']) ! 3)
   \<and> fst (event_generator ''s1'' [Yield ''Hel'', Raise ''boom'', Yield ''lo''])
       = [\<lparr>event = ''session_created'', data = [(''session_id'', ''s1'')]\<rparr>,
          \<lparr>event = ''token'', data = [(''token'', ''Hel'')]\<rparr>,
          \<lparr>event = ''error'', data = [(''error'', ''boom'')]\<rparr>]
   \<and> fst (event_generator ''s1'' [Yield ''Hel'', Cancel])
       = [\<lparr>event = ''session_created'', data = [(''session_id'', ''s1'')]\<rparr>,
          \<lparr>event = ''token'', data = [(''token'', ''Hel'')]\<rparr>]"
  using event_generator_order [of "''s1''" "[Yield ''Hel'', Yield ''lo'']"]
        event_generator_order [of "''s1''" "[Yield ''Hel'', Raise ''boom'', Yield ''lo'']"]
  by (simp add: event_generator_def terminal_def done_event_def session_created_event_def
      token_event_def error_event_def)

text \<open>
  C2. When the chat service raises an exception (one that \<open>except Exception\<close> catches)
  after yielding any number of tokens, the generator emits the events so far, then one
  \<open>error\<close> event whose data is the exception's text, and returns: the exception does not
  leave the generator, and nothing is emitted after the \<open>error\<close> event. With
  \<open>rest = []\<close> and all tokens yielded this is a failure of the service's last step,
  after the last token and before \<open>done\<close>; the \<open>done\<close> step of the generator itself
  only serialises two strings.
\<close>

theorem event_generator_error:
  "event_generator sid (map Yield toks @ Raise e # rest)
     = (session_created_event sid # map token_event toks @ [error_event e], Returned)
   \<and> data (error_event e) = [(''error'', e)]
   \<and> filter (\<lambda>x. event x = ''error'')
        (fst (event_generator sid (map Yield toks @ Raise e # rest))) = [error_event e]
   \<and> last (fst (event_generator sid (map Yield toks @ Raise e # rest))) = error_event e"
proof -
  have 1: "event_generator sid (map Yield toks @ Raise e # rest)
             = (session_created_event sid # map token_event toks @ [error_event e], Returned)"
    by (simp add: event_generator_def stream_tokens_raise)
  show ?thesis
    unfolding 1
    by (simp add: token_not_error error_event_def session_created_event_def)
qed

section \<open>Start-up: verifying the connection\<close>

lemma trace_until_step: "n < j \<Longrightarrow> trace_until w n j = Attempt n # Sleep w # trace_until w (Suc n) j"
  by (simp add: trace_until_def upt_conv_Cons)

lemma trace_until_same: "trace_until w j j = [Attempt j]"
  by (simp add: trace_until_def)

lemma retrying_success:
  "n \<le> j \<Longrightarrow> j \<le> m \<Longrightarrow> connect j \<Longrightarrow> (\<forall>k. n \<le> k \<and> k < j \<longrightarrow> \<not> connect k) \<Longrightarrow>
     retrying m w connect n = (trace_until w n j, Inr ())"
proof (induction "j - n" arbitrary: n)
  case 0
  then have "n = j" by simp
  with 0 show ?case by (simp add: trace_until_same)
next
  case (Suc d)
  then have lt: "n < j" and nc: "\<not> connect n" by auto
  with Suc.prems have nm: "\<not> n \<ge> m" by simp
  have ih: "retrying m w connect (Suc n) = (trace_until w (Suc n) j, Inr ())"
    using Suc.hyps(1) [of "Suc n"] Suc.hyps(2) Suc.prems lt by auto
  show ?case
    using nc nm ih lt by (subst retrying.simps) (simp add: trace_until_step)
qed

lemma retrying_exhausted:
  "n \<le> m \<Longrightarrow> (\<forall>k. n \<le> k \<and> k \<le> m \<longrightarrow> \<not> connect k) \<Longrightarrow>
     retrying m w connect n = (trace_until w n m, Inl (RetryError m))"
proof (induction "m - n" arbitrary: n)
  case 0
  then have "n = m" by simp
  with 0 show ?case by (simp add: trace_until_same)
next
  case (Suc d)
  then have lt: "n < m" and nc: "\<not> connect n" by auto
  have ih: "retrying m w connect (Suc n) = (trace_until w (Suc n) m, Inl (RetryError m))"
    using Suc.hyps(1) [of "Suc n"] Suc.hyps(2) Suc.prems lt by auto
  show ?case
    using nc ih lt by (subst retrying.simps) (simp add: trace_until_step)
qed

lemma attempts_trace_until: "n \<le> j \<Longrightarrow> attempts (trace_until w n j) = Suc (j - n)"
proof (induction "j - n" arbitrary: n)
  case 0
  then show ?case by (simp add: trace_until_same attempts_def)
next
  case (Suc d)
  then have lt: "n < j" by simp
  have "attempts (trace_until w (Suc n) j) = Suc (j - Suc n)"
    using Suc.hyps(1) [of "Suc n"] Suc.hyps(2) lt by auto
  then show ?case using lt by (simp add: trace_until_step attempts_def)
qed

lemma trace_5: "trace_until 2 1 5
  = [Attempt 1, Sleep 2, Attempt 2, Sleep 2, Attempt 3, Sleep 2, Attempt 4, Sleep 2, Attempt 5]"
  by (simp add: trace_until_def upt_rec)

text \<open>
  C3. If the five connection attempts all fail, \<open>verify_connection\<close> makes exactly
  five attempts with a sleep of 2 seconds between two of them and raises; \<open>init_db\<close>
  then raises \<open>RuntimeError\<close> and the application does not start. If attempt \<open>j\<close> of
  the five is the first to succeed, exactly \<open>j\<close> attempts are made, the last action is
  that attempt, and (the migrations having run) \<open>init_db\<close> returns and the application
  serves.
\<close>

theorem verify_connection_retries:
  "((\<forall>k. 1 \<le> k \<and> k \<le> 5 \<longrightarrow> \<not> connect k) \<longrightarrow>
      verify_connection connect
        = ([Attempt 1, Sleep 2, Attempt 2, Sleep 2, Attempt 3, Sleep 2, Attempt 4, Sleep 2,
            Attempt 5], Inl (RetryError 5))
      \<and> attempts (fst (verify_connection connect)) = 5
      \<and> snd (init_db True connect) = Inl (RuntimeError (RetryError 5))
      \<and> (\<exists>e. snd (init_db migrations_ok connect) = Inl (RuntimeError e))
      \<and> (\<exists>e. lifespan_startup migrations_ok connect = Aborted (RuntimeError e)))
   \<and> (\<forall>j. 1 \<le> j \<and> j \<le> 5 \<and> connect j \<and> (\<forall>k. 1 \<le> k \<and> k < j \<longrightarrow> \<not> connect k) \<longrightarrow>
      verify_connection connect = (trace_until 2 1 j, Inr ())
      \<and> attempts (fst (verify_connection connect)) = j
      \<and> last (fst (verify_connection connect)) = Attempt j
      \<and> init_db True connect = (trace_until 2 1 j, Inr ())
      \<and> lifespan_startup True connect = Serving)"
proof (intro conjI impI allI)
  assume fail: "\<forall>k. 1 \<le> k \<and> k \<le> 5 \<longrightarrow> \<not> connect k"
  have v: "verify_connection connect = (trace_until 2 1 5, Inl (RetryError 5))"
    unfolding verify_connection_def using fail by (intro retrying_exhausted) auto
  show "verify_connection connect
          = ([Attempt 1, Sleep 2, Attempt 2, Sleep 2, Attempt 3, Sleep 2, Attempt 4, Sleep 2,
              Attempt 5], Inl (RetryError 5))"
    unfolding v trace_5 by simp
  show "attempts (fst (verify_connection connect)) = 5"
    using v by (simp add: attempts_trace_until)
  show "snd (init_db True connect) = Inl (RuntimeError (RetryError 5))"
    using v by (simp add: init_db_def)
  show i: "\<exists>e. snd (init_db migrations_ok connect) = Inl (RuntimeError e)"
    using v by (simp add: init_db_def)
  show "\<exists>e. lifespan_startup migrations_ok connect = Aborted (RuntimeError e)"
    using i by (auto simp: lifespan_startup_def)
next
  fix j
  assume a: "1 \<le> j \<and> j \<le> 5 \<and> connect j \<and> (\<forall>k. 1 \<le> k \<and> k < j \<longrightarrow> \<not> connect k)"
  show v: "verify_connection connect = (trace_until 2 1 j, Inr ())"
    unfolding verify_connection_def using a by (intro retrying_success) auto
  show "attempts (fst (verify_connection connect)) = j"
    using v a by (simp add: attempts_trace_until)
  show "last (fst (verify_connection connect)) = Attempt j"
    using v by (simp add: trace_until_def)
  show i: "init_db True connect = (trace_until 2 1 j, Inr ())"
    using v by (simp add: init_db_def)
  show "lifespan_startup True connect = Serving"
    using i by (simp add: lifespan_startup_def)
qed

theorem verify_connection_retries_witness:
  "attempts (fst (verify_connection (\<lambda>k. False))) = 5
   \<and> lifespan_startup True (\<lambda>k. False) = Aborted (RuntimeError (RetryError 5))
   \<and> verify_connection (\<lambda>k. k = 3) = ([Attempt 1, Sleep 2, Attempt 2, Sleep 2, Attempt 3], Inr ())
   \<and> lifespan_startup True (\<lambda>k. k = 3) = Serving"
proof -
  have t: "trace_until 2 1 3 = [Attempt 1, Sleep 2, Attempt 2, Sleep 2, Attempt 3]"
    by (simp add: trace_until_def upt_rec)
  have h: "(1::nat) \<le> 3 \<and> (3::nat) \<le> 5 \<and> (3::nat) = 3 \<and> (\<forall>k. 1 \<le> k \<and> k < 3 \<longrightarrow> k \<noteq> (3::nat))"
    by simp
  show ?thesis
    using verify_connection_retries [of "\<lambda>k. False" True]
          verify_connection_retries [of "\<lambda>k. k = 3" True] h t
    by (auto simp: lifespan_startup_def)
qed

section \<open>The logging context is restored\<close>

lemma set_if_truthy:
  "truthy x \<Longrightarrow>
     set_if v x (lc, ctx) = (lc\<lparr>tokens := tokens lc @ [\<lparr>var = v, old = ctx v\<rparr>]\<rparr>, ctx(v := Value x))"
  by (simp add: set_if_def var_set_def)

lemma set_if_falsy: "\<not> truthy x \<Longrightarrow> set_if v x (lc, ctx) = (lc, ctx)"
  by (simp add: set_if_def)

lemma enter_exit:
  "exit_context (fst (enter (LogContext r s u) ctx)) (snd (enter (LogContext r s u) ctx)) = ctx"
  by (cases "truthy r"; cases "truthy s"; cases "truthy u")
     (auto simp: enter_def LogContext_def set_if_truthy set_if_falsy exit_context_def
        var_reset_def fun_eq_iff)

lemma exit_restores:
  "managed (LogContext r s u) v \<Longrightarrow>
     exit_context (fst (enter (LogContext r s u) ctx)) ctx2 v = ctx v"
  by (cases "truthy r"; cases "truthy s"; cases "truthy u"; cases v)
     (auto simp: enter_def LogContext_def set_if_truthy set_if_falsy exit_context_def
        var_reset_def managed_def)

lemma exit_keeps:
  "\<not> managed (LogContext r s u) v \<Longrightarrow>
     exit_context (fst (enter (LogContext r s u) ctx)) ctx2 v = ctx2 v"
  by (cases "truthy r"; cases "truthy s"; cases "truthy u"; cases v)
     (auto simp: enter_def LogContext_def set_if_truthy set_if_falsy exit_context_def
        var_reset_def managed_def)

text \<open>
  C9. Whatever the three context variables hold and whatever arguments \<open>LogContext\<close>
  gets, entering and then leaving restores the context exactly (so every variable reads
  as before); the \<open>with\<close> block does so whether its body ends normally
  (\<open>raised = None\<close>) or with an exception (\<open>raised = Some e\<close>), and hands the body's
  outcome on.
\<close>

theorem log_context_round_trip:
  "exit_context (fst (enter (LogContext r s u) ctx)) (snd (enter (LogContext r s u) ctx)) = ctx
   \<and> with_LogContext (LogContext r s u) (\<lambda>c. (raised, c)) ctx = (raised, ctx)
   \<and> var_get (snd (with_LogContext (LogContext r s u) (\<lambda>c. (raised, c)) ctx)) v = var_get ctx v"
proof -
  have 1: "exit_context (fst (enter (LogContext r s u) ctx)) (snd (enter (LogContext r s u) ctx)) = ctx"
    by (rule enter_exit)
  then have 2: "with_LogContext (LogContext r s u) (\<lambda>c. (raised, c)) ctx = (raised, ctx)"
    by (simp add: with_LogContext_def split_def Let_def)
  from 1 2 show ?thesis by simp
qed

text \<open>
  A body that writes the variables itself: those the \<open>LogContext\<close> set are put back to
  what they held before entry all the same, the others keep what the body left.
\<close>

lemma with_LogContext_any_body:
  "snd (with_LogContext (LogContext r s u) body ctx) v
     = (if managed (LogContext r s u) v then ctx v
        else snd (body (snd (enter (LogContext r s u) ctx))) v)"
  by (simp add: with_LogContext_def exit_restores exit_keeps split_def Let_def)

section \<open>The context window holds the most recent turns\<close>

lemma length_most_recent: "length (most_recent w xs) = min (length xs) w"
  by (simp add: most_recent_def)

lemma most_recent_suffix:
  "most_recent w xs = drop (length xs - length (most_recent w xs)) xs"
  by (simp add: most_recent_def min_def)

lemma most_recent_all: "length xs \<le> w \<Longrightarrow> most_recent w xs = xs"
  by (simp add: most_recent_def)

text \<open>
  C7. With a window size \<open>W \<ge> 0\<close> and \<open>N\<close> persisted turns in the session, the context
  is \<open>min N W\<close> prior turns followed by the new user message; the prior turns are the
  last ones of the session, in the order of the session (oldest first), and all of them
  when \<open>N \<le> W\<close>. The builder returns this context for every message within the maximum
  length. The default window size is 10.
\<close>

theorem build_context_window:
  assumes "0 \<le> context_window_size cfg"
  shows "\<exists>prior. build_context cfg d sid msg
                   = map (\<lambda>t. (turn_role t, content t)) prior @ [(UserRole, msg)]
           \<and> int (length prior)
               = min (int (length (session_turns d sid))) (context_window_size cfg)
           \<and> prior = drop (length (session_turns d sid) - length prior) (session_turns d sid)
           \<and> (int (length (session_turns d sid)) \<le> context_window_size cfg
                 \<longrightarrow> prior = session_turns d sid)
           \<and> (sorted (map turn_created_at (session_turns d sid))
                 \<longrightarrow> sorted (map turn_created_at prior))
           \<and> length (build_context cfg d sid msg) = length prior + 1
           \<and> last (build_context cfg d sid msg) = (UserRole, msg)
           \<and> (int (length msg) \<le> max_message_length cfg
                 \<longrightarrow> context_window_builder cfg d sid msg = Inr (build_context cfg d sid msg))
           \<and> context_window_size default_settings = 10"
proof -
  let ?w = "nat (context_window_size cfg)"
  let ?ts = "session_turns d sid"
  let ?p = "most_recent ?w ?ts"
  have 1: "build_context cfg d sid msg = map (\<lambda>t. (turn_role t, content t)) ?p @ [(UserRole, msg)]"
    by (simp add: build_context_def)
  have 2: "int (length ?p) = min (int (length ?ts)) (context_window_size cfg)"
  proof -
    have "length ?p = min (length ?ts) ?w" by (rule length_most_recent)
    with assms show ?thesis by linarith
  qed
  have 3: "?p = drop (length ?ts - length ?p) ?ts"
    by (rule most_recent_suffix)
  have 4: "int (length ?ts) \<le> context_window_size cfg \<longrightarrow> ?p = ?ts"
  proof
    assume "int (length ?ts) \<le> context_window_size cfg"
    with assms have "length ?ts \<le> ?w" by linarith
    then show "?p = ?ts" by (rule most_recent_all)
  qed
  have 5: "sorted (map turn_created_at ?ts) \<longrightarrow> sorted (map turn_created_at ?p)"
    by (simp add: most_recent_def drop_map [symmetric])
  have 6: "int (length msg) \<le> max_message_length cfg
             \<longrightarrow> context_window_builder cfg d sid msg = Inr (build_context cfg d sid msg)"
    by (simp add: context_window_builder_def)
  have 7: "context_window_size default_settings = 10"
    by (simp add: default_settings_def)
  show ?thesis
    apply (rule exI [of _ ?p])
    using 1 2 3 4 5 6 7 by simp
qed

theorem build_context_window_witness:
  "0 \<le> context_window_size (default_settings\<lparr>context_window_size := 1\<rparr>)
   \<and> build_context (default_settings\<lparr>context_window_size := 1\<rparr>) db0 ''s1'' ''Menu?''
       = [(AssistantRole, ''Hello''), (UserRole, ''Menu?'')]
   \<and> context_window_builder default_settings db0 ''s1'' ''Menu?''
       = Inr [(UserRole, ''Hi''), (AssistantRole, ''Hello''), (UserRole, ''Menu?'')]"
proof -
  have h1: "0 \<le> context_window_size (default_settings\<lparr>context_window_size := 1\<rparr>)"
    by simp
  have h2: "0 \<le> context_window_size default_settings"
    by (simp add: default_settings_def)
  show ?thesis
    using build_context_window [OF h1, of db0 "''s1''" "''Menu?''"]
          build_context_window [OF h2, of db0 "''s1''" "''Menu?''"]
    by (simp add: build_context_def context_window_builder_def most_recent_def
        session_turns_def default_settings_def db0_def)
qed

end
